theory Spec2Isabelle
  imports
    Main
    "HOL-Library.AList"
    "HOL-Library.Char_ord"
    "HOL-Library.List_Lexorder"
begin

section \<open>Python values used by the dashboard DAO\<close>

text \<open>
  The DAO in \<^verbatim>\<open>superset/dashboards/dao.py\<close> works on values that come out of
  \<^verbatim>\<open>json.loads\<close>: \<^verbatim>\<open>None\<close>, booleans, integers, strings, lists and
  dictionaries with string keys. Floating point numbers are not part of the model.
  A Python \<^verbatim>\<open>dict\<close> keeps its insertion order, and \<^verbatim>\<open>json.dumps\<close> writes the
  items in that order, so a dictionary is an association list: assignment
  \<^verbatim>\<open>d[k] = v\<close> is \<^const>\<open>AList.update\<close> (in place when the key exists, appended
  otherwise), \<^verbatim>\<open>d.pop(k, None)\<close> is \<^const>\<open>AList.delete\<close> and \<^verbatim>\<open>d.get(k)\<close> is
  \<^const>\<open>map_of\<close>. Strings are lists of 8-bit characters.
\<close>

datatype json =
    JNull
  | JBool bool
  | JInt int
  | JStr string
  | JArr "json list"
  | JObj "(string \<times> json) list"

type_synonym dict = "(string \<times> json) list"

text \<open>Every \<^verbatim>\<open>raise\<close> the modelled code can reach is a value of this type.\<close>

datatype error =
    KeyError string
  | AttributeError
  | TypeError
  | ValueError string
  | JSONDecodeError
  | SQLAlchemyError string
  | DashboardNotFoundError
  | CollaboratorError string

text \<open>\<^verbatim>\<open>d.get(k)\<close>: a missing key and a key bound to \<^verbatim>\<open>None\<close> both give \<^verbatim>\<open>None\<close>.\<close>

definition dict_get :: "dict \<Rightarrow> string \<Rightarrow> json option" where
  "dict_get d k = (case map_of d k of Some JNull \<Rightarrow> None | r \<Rightarrow> r)"

text \<open>\<^verbatim>\<open>d.get(k, default)\<close>: the default is used only when the key is missing.\<close>

definition dict_get_default :: "dict \<Rightarrow> string \<Rightarrow> json \<Rightarrow> json" where
  "dict_get_default d k dflt = (case map_of d k of None \<Rightarrow> dflt | Some v \<Rightarrow> v)"

text \<open>\<^verbatim>\<open>d[k]\<close> raises \<^verbatim>\<open>KeyError\<close> on a missing key.\<close>

definition dict_index :: "dict \<Rightarrow> string \<Rightarrow> error + json" where
  "dict_index d k = (case map_of d k of None \<Rightarrow> Inl (KeyError k) | Some v \<Rightarrow> Inr v)"

text \<open>\<^verbatim>\<open>d.setdefault(k, v)\<close>.\<close>

definition dict_setdefault :: "string \<Rightarrow> json \<Rightarrow> dict \<Rightarrow> dict" where
  "dict_setdefault k v d = (case map_of d k of None \<Rightarrow> AList.update k v d | Some _ \<Rightarrow> d)"

text \<open>Truth value of a Python object in a condition.\<close>

fun py_truthy :: "json \<Rightarrow> bool" where
  "py_truthy JNull = False"
| "py_truthy (JBool b) = b"
| "py_truthy (JInt i) = (i \<noteq> 0)"
| "py_truthy (JStr s) = (s \<noteq> [])"
| "py_truthy (JArr xs) = (xs \<noteq> [])"
| "py_truthy (JObj kvs) = (kvs \<noteq> [])"

text \<open>
  The integer a value compares equal to: \<^verbatim>\<open>True == 1\<close> and \<^verbatim>\<open>False == 0\<close> in
  Python, and they hash alike, so a boolean finds an integer key.
\<close>

fun json_num :: "json \<Rightarrow> int option" where
  "json_num (JInt i) = Some i"
| "json_num (JBool b) = Some (if b then 1 else 0)"
| "json_num _ = None"

text \<open>\<^verbatim>\<open>n in xs\<close> for an integer \<^verbatim>\<open>n\<close> and a list of values: comparison by \<^verbatim>\<open>==\<close>.\<close>

definition py_int_in :: "int \<Rightarrow> json list \<Rightarrow> bool" where
  "py_int_in n xs = (Some n \<in> set (map json_num xs))"

text \<open>Lists and dictionaries are unhashable: using one as a dictionary key raises.\<close>

fun py_hashable :: "json \<Rightarrow> bool" where
  "py_hashable (JArr _) = False"
| "py_hashable (JObj _) = False"
| "py_hashable _ = True"

text \<open>Equality of two hashable values as dictionary keys.\<close>

definition py_key_eq :: "json \<Rightarrow> json \<Rightarrow> bool" where
  "py_key_eq a b =
     (case (json_num a, json_num b) of
        (Some x, Some y) \<Rightarrow> x = y
      | (None, None) \<Rightarrow> a = b
      | _ \<Rightarrow> False)"

text \<open>
  \<^verbatim>\<open>d[k] = v\<close> on a dictionary whose keys are arbitrary hashable values: an equal key
  keeps its place (and the key object first inserted), a new key goes last.
\<close>

fun py_setitem :: "json \<Rightarrow> json \<Rightarrow> (json \<times> json) list \<Rightarrow> (json \<times> json) list" where
  "py_setitem k v [] = [(k, v)]"
| "py_setitem k v (p # ps) =
     (if py_key_eq (fst p) k then (fst p, v) # ps else p # py_setitem k v ps)"

subsection \<open>\<^verbatim>\<open>int(str)\<close>\<close>

text \<open>
  \<^verbatim>\<open>int(s)\<close> for a string, base 10: surrounding ASCII whitespace is dropped, one sign
  is allowed, and single underscores may separate digits. Anything else raises
  \<^verbatim>\<open>ValueError\<close>. Characters outside ASCII are treated as invalid.
\<close>

definition is_space :: "char \<Rightarrow> bool" where
  "is_space c = (c \<in> set [CHR 0x09, CHR 0x0A, CHR 0x0B, CHR 0x0C, CHR 0x0D, CHR 0x20])"

definition py_strip :: "string \<Rightarrow> string" where
  "py_strip s = rev (dropWhile is_space (rev (dropWhile is_space s)))"

definition digit_val :: "char \<Rightarrow> nat option" where
  "digit_val c =
     (let code = (of_char c :: nat)
      in if 48 \<le> code \<and> code \<le> 57 then Some (code - 48) else None)"

fun parse_digits :: "nat \<Rightarrow> string \<Rightarrow> nat option" where
  "parse_digits acc [] = Some acc"
| "parse_digits acc [c] =
     (case digit_val c of None \<Rightarrow> None | Some v \<Rightarrow> Some (acc * 10 + v))"
| "parse_digits acc (c # d # ds) =
     (if c = CHR ''_'' then
        (case digit_val d of None \<Rightarrow> None | Some v \<Rightarrow> parse_digits (acc * 10 + v) ds)
      else
        (case digit_val c of None \<Rightarrow> None | Some v \<Rightarrow> parse_digits (acc * 10 + v) (d # ds)))"

definition parse_unsigned :: "string \<Rightarrow> nat option" where
  "parse_unsigned u =
     (case u of
        [] \<Rightarrow> None
      | c # cs \<Rightarrow> (case digit_val c of None \<Rightarrow> None | Some v \<Rightarrow> parse_digits v cs))"

definition py_int :: "string \<Rightarrow> error + int" where
  "py_int s =
     (let t = py_strip s;
          neg = (t \<noteq> [] \<and> hd t = CHR ''-'');
          u = (if t \<noteq> [] \<and> (hd t = CHR ''-'' \<or> hd t = CHR ''+'') then tl t else t)
      in case parse_unsigned u of
           None \<Rightarrow> Inl (ValueError s)
         | Some n \<Rightarrow> Inr (if neg then - int n else int n))"

subsection \<open>\<^verbatim>\<open>json.dumps\<close>\<close>

text \<open>
  The serialiser with the options the DAO uses: the two separators and
  \<^verbatim>\<open>sort_keys\<close>. \<^verbatim>\<open>ensure_ascii\<close> is on, as by default: the quote, the backslash
  and everything outside the printable ASCII range is escaped.
\<close>

definition digit_char :: "nat \<Rightarrow> char" where
  "digit_char n = ''0123456789abcdef'' ! (n mod 16)"

function show_nat :: "nat \<Rightarrow> string" where
  "show_nat n = (if n < 10 then [digit_char n] else show_nat (n div 10) @ [digit_char (n mod 10)])"
  by pat_completeness auto
termination
  by (relation "measure id") auto

declare show_nat.simps [simp del]

definition show_int :: "int \<Rightarrow> string" where
  "show_int i = (if i < 0 then CHR ''-'' # show_nat (nat (- i)) else show_nat (nat i))"

definition escape_char :: "char \<Rightarrow> string" where
  "escape_char c =
     (if c = CHR 0x22 then [CHR 0x5C, CHR 0x22]
      else if c = CHR 0x5C then [CHR 0x5C, CHR 0x5C]
      else if c = CHR 0x0A then [CHR 0x5C, CHR ''n'']
      else if c = CHR 0x0D then [CHR 0x5C, CHR ''r'']
      else if c = CHR 0x09 then [CHR 0x5C, CHR ''t'']
      else if c = CHR 0x08 then [CHR 0x5C, CHR ''b'']
      else if c = CHR 0x0C then [CHR 0x5C, CHR ''f'']
      else if (of_char c :: nat) < 32 \<or> 126 < (of_char c :: nat) then
        [CHR 0x5C, CHR ''u'', CHR ''0'', CHR ''0'',
         digit_char (of_char c div 16), digit_char (of_char c mod 16)]
      else [c])"

definition quote :: "string \<Rightarrow> string" where
  "quote s = CHR 0x22 # concat (map escape_char s) @ [CHR 0x22]"

fun intercalate :: "string \<Rightarrow> string list \<Rightarrow> string" where
  "intercalate sep [] = []"
| "intercalate sep [x] = x"
| "intercalate sep (x # y # ys) = x @ sep @ intercalate sep (y # ys)"

fun json_dumps_with :: "string \<Rightarrow> string \<Rightarrow> bool \<Rightarrow> json \<Rightarrow> string" where
  "json_dumps_with isep ksep srt JNull = ''null''"
| "json_dumps_with isep ksep srt (JBool b) = (if b then ''true'' else ''false'')"
| "json_dumps_with isep ksep srt (JInt i) = show_int i"
| "json_dumps_with isep ksep srt (JStr s) = quote s"
| "json_dumps_with isep ksep srt (JArr xs) =
     ''['' @ intercalate isep (map (json_dumps_with isep ksep srt) xs) @ '']''"
| "json_dumps_with isep ksep srt (JObj kvs) =
     (let items = map (\<lambda>kv. (fst kv, json_dumps_with isep ksep srt (snd kv))) kvs;
          ordered = (if srt then sort_key fst items else items)
      in ''{'' @ intercalate isep (map (\<lambda>kv. quote (fst kv) @ ksep @ snd kv) ordered) @ ''}'')"

text \<open>\<^verbatim>\<open>json.dumps(x)\<close> with the default separators.\<close>

definition json_dumps :: "json \<Rightarrow> string" where
  "json_dumps = json_dumps_with '', '' '': '' False"

text \<open>\<^verbatim>\<open>json.dumps(x, indent=None, separators=(",", ":"), sort_keys=True)\<close>.\<close>

definition json_dumps_compact_sorted :: "json \<Rightarrow> string" where
  "json_dumps_compact_sorted = json_dumps_with '','' '':'' True"

section \<open>The data model\<close>

text \<open>
  A naive \<^verbatim>\<open>datetime\<close> is represented by its distance in microseconds from
  \<^verbatim>\<open>datetime.fromtimestamp(0)\<close>; comparison of datetimes is comparison of these
  numbers, and the \<^verbatim>\<open>microsecond\<close> field is the number modulo one million.
\<close>

type_synonym datetime = int



text \<open>A chart (\<^verbatim>\<open>Slice\<close>): its id, \<^verbatim>\<open>str(slice.uuid)\<close> and its change timestamp.\<close>

record slice =
  slice_id :: int
  slice_uuid :: string
  slice_changed_on :: datetime

record datasource =
  datasource_id :: int
  datasource_changed_on :: datetime

text \<open>
  The \<^verbatim>\<open>Dashboard\<close> model class is not part of the file; the record has the
  attributes the DAO reads and writes. \<^verbatim>\<open>css\<close> and \<^verbatim>\<open>dashboard_title\<close> hold
  whatever value the payload carries, since attribute assignment does not check types.
  \<^verbatim>\<open>datasources\<close> is the value of the model's property of that name.
\<close>

record dashboard =
  dash_id :: int
  slug :: "string option"
  dashboard_title :: json
  css :: json
  position_json :: string
  json_metadata :: string
  changed_on :: datetime
  slices :: "slice list"
  datasources :: "datasource list"
  owners :: "int list"
  embedded :: "int list"

section \<open>Derived timestamp queries\<close>







section \<open>Slug uniqueness\<close>

text \<open>
  Both checks query the dashboards table directly; \<open>rows\<close> is its content. A row
  whose slug is \<^verbatim>\<open>NULL\<close> matches no slug.
\<close>

definition validate_slug_uniqueness :: "dashboard list \<Rightarrow> string \<Rightarrow> bool" where
  "validate_slug_uniqueness rows s =
     (if s = [] then True
      else \<not> list_ex (\<lambda>d. slug d = Some s) rows)"

definition validate_update_slug_uniqueness ::
  "dashboard list \<Rightarrow> int \<Rightarrow> string option \<Rightarrow> bool" where
  "validate_update_slug_uniqueness rows dashboard_id s =
     (case s of
        Some v \<Rightarrow> \<not> list_ex (\<lambda>d. slug d = Some v \<and> dash_id d \<noteq> dashboard_id) rows
      | None \<Rightarrow> True)"

section \<open>Bulk delete\<close>

text \<open>
  The SQLAlchemy session is a collaborator: its operations are parameters over a
  session state \<open>'s\<close>. An operation returns the state it leaves and the exception it
  raised, if any. \<^verbatim>\<open>rollback\<close> discards the pending transaction and does not raise.
\<close>

record 's session_ops =
  sess_merge :: "dashboard \<Rightarrow> 's \<Rightarrow> error option \<times> 's"
  sess_delete :: "int list \<Rightarrow> 's \<Rightarrow> error option \<times> 's"
  sess_commit :: "'s \<Rightarrow> error option \<times> 's"
  sess_rollback :: "'s \<Rightarrow> 's"

text \<open>\<^verbatim>\<open>except SQLAlchemyError\<close> catches the storage errors only.\<close>

fun is_SQLAlchemyError :: "error \<Rightarrow> bool" where
  "is_SQLAlchemyError (SQLAlchemyError _) = True"
| "is_SQLAlchemyError _ = False"

text \<open>Lines 171 to 175: the loop that empties the relationships and merges each model.\<close>

fun detach_related :: "'s session_ops \<Rightarrow> dashboard list \<Rightarrow> 's \<Rightarrow> error option \<times> 's" where
  "detach_related ops [] s = (None, s)"
| "detach_related ops (model # models) s =
     (case sess_merge ops (model\<lparr>slices := [], owners := [], embedded := []\<rparr>) s of
        (Some e, s') \<Rightarrow> (Some e, s')
      | (None, s') \<Rightarrow> detach_related ops models s')"

text \<open>The handler of lines 183 to 185.\<close>

definition on_delete_error :: "'s session_ops \<Rightarrow> error \<Rightarrow> 's \<Rightarrow> error option \<times> 's" where
  "on_delete_error ops ex s =
     (if is_SQLAlchemyError ex then (Some ex, sess_rollback ops s) else (Some ex, s))"

text \<open>Lines 177 to 185: the \<^verbatim>\<open>try\<close> block with its handler.\<close>

definition delete_rows ::
  "'s session_ops \<Rightarrow> int list \<Rightarrow> bool \<Rightarrow> 's \<Rightarrow> error option \<times> 's" where
  "delete_rows ops item_ids commit s =
     (case sess_delete ops item_ids s of
        (Some ex, s1) \<Rightarrow> on_delete_error ops ex s1
      | (None, s1) \<Rightarrow>
          (if commit then
             (case sess_commit ops s1 of
                (Some ex, s2) \<Rightarrow> on_delete_error ops ex s2
              | (None, s2) \<Rightarrow> (None, s2))
           else (None, s1)))"

definition bulk_delete ::
  "'s session_ops \<Rightarrow> dashboard list option \<Rightarrow> bool \<Rightarrow> 's \<Rightarrow> error option \<times> 's" where
  "bulk_delete ops models commit s =
     (case models of
        Some (m # ms) \<Rightarrow>
          (case detach_related ops (m # ms) s of
             (Some e, s1) \<Rightarrow> (Some e, s1)
           | (None, s1) \<Rightarrow> delete_rows ops (map dash_id (m # ms)) commit s1)
      | _ \<Rightarrow> delete_rows ops [] commit s)"

text \<open>
  An in-memory session over the dashboards table, without faults: \<open>pending\<close> is the
  table as the open transaction sees it, \<open>committed\<close> the table as last committed.
\<close>

record mem_session =
  pending :: "dashboard list"
  committed :: "dashboard list"

fun mem_upsert :: "dashboard \<Rightarrow> dashboard list \<Rightarrow> dashboard list" where
  "mem_upsert m [] = [m]"
| "mem_upsert m (r # rs) = (if dash_id r = dash_id m then m # rs else r # mem_upsert m rs)"

definition mem_ops :: "mem_session session_ops" where
  "mem_ops =
     \<lparr> sess_merge = (\<lambda>m s. (None, s\<lparr>pending := mem_upsert m (pending s)\<rparr>)),
       sess_delete = (\<lambda>ids s. (None, s\<lparr>pending := filter (\<lambda>r. dash_id r \<notin> set ids) (pending s)\<rparr>)),
       sess_commit = (\<lambda>s. (None, s\<lparr>committed := pending s\<rparr>)),
       sess_rollback = (\<lambda>s. s\<lparr>pending := committed s\<rparr>) \<rparr>"

section \<open>Reconciling the dashboard metadata\<close>

text \<open>
  What \<^verbatim>\<open>set_dash_metadata\<close> uses and the file does not define is a parameter:
  \<^item> \<open>params_dict\<close>: the property \<^verbatim>\<open>Dashboard.params_dict\<close>, the dashboard's persisted
    metadata document as a dictionary;
  \<^item> \<open>json_loads\<close>: \<^verbatim>\<open>json.loads\<close>;
  \<^item> \<open>copy_filter_scopes\<close>: the filter-scope collaborator, given the id-translation
    dictionary and the old filter-scope document;
  \<^item> \<open>query_slices\<close>: the query \<^verbatim>\<open>session.query(Slice).filter(Slice.id.in_(ids)).all()\<close>;
  \<^item> \<open>session_commit\<close>: the exception \<^verbatim>\<open>db.session.commit()\<close> raises, if any.
\<close>

record env =
  params_dict :: "dashboard \<Rightarrow> error + dict"
  json_loads :: "string \<Rightarrow> error + json"
  copy_filter_scopes :: "(json \<times> json) list \<Rightarrow> json \<Rightarrow> error + json"
  query_slices :: "json list \<Rightarrow> error + slice list"
  session_commit :: "error option"

text \<open>
  Lines 200 to 204: the chart ids of the entries that are dictionaries. A dictionary
  without \<^verbatim>\<open>meta\<close> contributes \<^verbatim>\<open>None\<close>; a \<^verbatim>\<open>meta\<close> that is not a dictionary has
  no \<^verbatim>\<open>get\<close>.
\<close>

fun slice_ids_of :: "json list \<Rightarrow> error + json list" where
  "slice_ids_of [] = Inr []"
| "slice_ids_of (JObj obj # rest) =
     (case dict_get_default obj ''meta'' (JObj []) of
        JObj meta \<Rightarrow>
          (case slice_ids_of rest of
             Inl e \<Rightarrow> Inl e
           | Inr ids \<Rightarrow> Inr (dict_get_default meta ''chartId'' JNull # ids))
      | _ \<Rightarrow> Inl AttributeError)"
| "slice_ids_of (_ # rest) = slice_ids_of rest"

text \<open>Line 212: \<^verbatim>\<open>{slice.id: str(slice.uuid) for slice in current_slices}\<close>.\<close>

definition uuid_map_of :: "slice list \<Rightarrow> (int \<times> string) list" where
  "uuid_map_of current_slices =
     fold (\<lambda>s m. AList.update (slice_id s) (slice_uuid s) m) current_slices []"

text \<open>\<^verbatim>\<open>uuid_map.get(chart_id)\<close>: an unhashable key raises, a key of another type finds nothing.\<close>

definition uuid_map_get :: "(int \<times> string) list \<Rightarrow> json \<Rightarrow> error + json" where
  "uuid_map_get m chart_id =
     (if \<not> py_hashable chart_id then Inl TypeError
      else case json_num chart_id of
             None \<Rightarrow> Inr JNull
           | Some i \<Rightarrow> (case map_of m i of None \<Rightarrow> Inr JNull | Some u \<Rightarrow> Inr (JStr u)))"

text \<open>\<^verbatim>\<open>x[k]\<close> for a string key: only a dictionary can be indexed this way.\<close>

definition py_subscript :: "json \<Rightarrow> string \<Rightarrow> error + json" where
  "py_subscript x k = (case x of JObj d \<Rightarrow> dict_index d k | _ \<Rightarrow> Inl TypeError)"

text \<open>\<^verbatim>\<open>x[k] = v\<close> for a string key.\<close>

definition py_store :: "json \<Rightarrow> string \<Rightarrow> json \<Rightarrow> error + json" where
  "py_store x k v = (case x of JObj d \<Rightarrow> Inr (JObj (AList.update k v d)) | _ \<Rightarrow> Inl TypeError)"

text \<open>
  Lines 214 to 220 for one entry: the entry as the loop leaves it. The subscripts
  \<^verbatim>\<open>obj["type"]\<close>, \<^verbatim>\<open>obj["meta"]\<close> and \<^verbatim>\<open>["chartId"]\<close> raise on a missing key.
\<close>

definition annotate_obj :: "(int \<times> string) list \<Rightarrow> json \<Rightarrow> error + json" where
  "annotate_obj uuid_map obj =
     (case obj of
        JObj d \<Rightarrow>
          (case dict_index d ''type'' of
             Inl e \<Rightarrow> Inl e
           | Inr t \<Rightarrow>
               if t \<noteq> JStr ''CHART'' then Inr obj
               else
                 (case dict_index d ''meta'' of
                    Inl e \<Rightarrow> Inl e
                  | Inr meta \<Rightarrow>
                      (case py_subscript meta ''chartId'' of
                         Inl e \<Rightarrow> Inl e
                       | Inr chart_id \<Rightarrow>
                           if \<not> py_truthy chart_id then Inr obj
                           else
                             (case uuid_map_get uuid_map chart_id of
                                Inl e \<Rightarrow> Inl e
                              | Inr u \<Rightarrow>
                                  (case py_store meta ''uuid'' u of
                                     Inl e \<Rightarrow> Inl e
                                   | Inr meta' \<Rightarrow> Inr (JObj (AList.update ''meta'' meta' d)))))))
      | _ \<Rightarrow> Inr obj)"

text \<open>Lines 213 to 220: the loop over \<^verbatim>\<open>positions.values()\<close>, which updates in place.\<close>

fun annotate_positions :: "(int \<times> string) list \<Rightarrow> dict \<Rightarrow> error + dict" where
  "annotate_positions uuid_map [] = Inr []"
| "annotate_positions uuid_map (p # rest) =
     (case annotate_obj uuid_map (snd p) of
        Inl e \<Rightarrow> Inl e
      | Inr obj' \<Rightarrow>
          (case annotate_positions uuid_map rest of
             Inl e \<Rightarrow> Inl e
           | Inr rest' \<Rightarrow> Inr ((fst p, obj') # rest')))"

text \<open>Line 238: \<^verbatim>\<open>{sid: sid for sid in slice_ids}\<close>.\<close>

fun identity_dict :: "(json \<times> json) list \<Rightarrow> json list \<Rightarrow> error + (json \<times> json) list" where
  "identity_dict acc [] = Inr acc"
| "identity_dict acc (sid # rest) =
     (if py_hashable sid then identity_dict (py_setitem sid sid acc) rest else Inl TypeError)"

text \<open>Lines 230 to 238.\<close>

definition slc_id_dict_of ::
  "(int \<times> int) list option \<Rightarrow> json list \<Rightarrow> error + (json \<times> json) list" where
  "slc_id_dict_of old_to_new_slice_ids slice_ids =
     (case old_to_new_slice_ids of
        Some (p # ps) \<Rightarrow>
          Inr (map (\<lambda>on. (JInt (fst on), JInt (snd on)))
                 (filter (\<lambda>on. py_int_in (snd on) slice_ids) (p # ps)))
      | _ \<Rightarrow> identity_dict [] slice_ids)"

text \<open>Lines 195 and 227 to 244: the new filter scopes, \<^verbatim>\<open>{}\<close> without the key.\<close>

definition new_filter_scopes_of ::
  "env \<Rightarrow> dict \<Rightarrow> (int \<times> int) list option \<Rightarrow> json list \<Rightarrow> error + json" where
  "new_filter_scopes_of env data old_to_new_slice_ids slice_ids =
     (case map_of data ''filter_scopes'' of
        None \<Rightarrow> Inr (JObj [])
      | Some fs \<Rightarrow>
          (case slc_id_dict_of old_to_new_slice_ids slice_ids of
             Inl e \<Rightarrow> Inl e
           | Inr slc_id_dict \<Rightarrow>
               (case (case fs of
                        JStr s \<Rightarrow> json_loads env (if s = [] then ''{}'' else s)
                      | _ \<Rightarrow> Inr fs) of
                  Inl e \<Rightarrow> Inl e
                | Inr old_filter_scopes \<Rightarrow> copy_filter_scopes env slc_id_dict old_filter_scopes)))"

text \<open>
  Lines 247 to 251: the items are visited in order and \<^verbatim>\<open>int(key)\<close> raises at the
  first key that is not an integer literal.
\<close>

fun applicable_filters :: "json list \<Rightarrow> dict \<Rightarrow> error + dict" where
  "applicable_filters slice_ids [] = Inr []"
| "applicable_filters slice_ids (kv # rest) =
     (case py_int (fst kv) of
        Inl e \<Rightarrow> Inl e
      | Inr n \<Rightarrow>
          (case applicable_filters slice_ids rest of
             Inl e \<Rightarrow> Inl e
           | Inr r \<Rightarrow> Inr (if py_int_in n slice_ids then kv # r else r)))"

text \<open>
  Lines 246 to 251: \<^verbatim>\<open>json.loads\<close> takes a string only, and the result must have
  \<^verbatim>\<open>items\<close>.
\<close>

definition default_filters_of :: "env \<Rightarrow> dict \<Rightarrow> json list \<Rightarrow> error + dict" where
  "default_filters_of env data slice_ids =
     (case dict_get_default data ''default_filters'' (JStr ''{}'') of
        JStr s \<Rightarrow>
          (case json_loads env s of
             Inl e \<Rightarrow> Inl e
           | Inr (JObj default_filters_data) \<Rightarrow> applicable_filters slice_ids default_filters_data
           | Inr _ \<Rightarrow> Inl AttributeError)
      | _ \<Rightarrow> Inl TypeError)"

text \<open>
  Lines 199 to 255, the branch taken when \<^verbatim>\<open>positions\<close> is not \<^verbatim>\<open>None\<close>. It gives the
  dashboard, the positions as annotated in place, the metadata dictionary and the new
  filter scopes.
\<close>

definition positions_branch ::
  "env \<Rightarrow> dict \<Rightarrow> (int \<times> int) list option \<Rightarrow> json \<Rightarrow> dashboard \<Rightarrow> dict
     \<Rightarrow> error + (dashboard \<times> json \<times> dict \<times> json)" where
  "positions_branch env data old_to_new_slice_ids positions dashboard md =
     (case positions of
        JObj ps \<Rightarrow>
          (case slice_ids_of (map snd ps) of
             Inl e \<Rightarrow> Inl e
           | Inr slice_ids \<Rightarrow>
          (case query_slices env slice_ids of
             Inl e \<Rightarrow> Inl e
           | Inr current_slices \<Rightarrow>
          (case annotate_positions (uuid_map_of current_slices) ps of
             Inl e \<Rightarrow> Inl e
           | Inr ps' \<Rightarrow>
          (case new_filter_scopes_of env data old_to_new_slice_ids slice_ids of
             Inl e \<Rightarrow> Inl e
           | Inr new_filter_scopes \<Rightarrow>
          (case default_filters_of env data slice_ids of
             Inl e \<Rightarrow> Inl e
           | Inr applicable \<Rightarrow>
               Inr (dashboard\<lparr>slices := current_slices,
                              position_json := json_dumps_compact_sorted (JObj ps')\<rparr>,
                    JObj ps',
                    AList.delete ''positions''
                      (AList.update ''default_filters'' (JStr (json_dumps (JObj applicable))) md),
                    new_filter_scopes))))))
      | _ \<Rightarrow> Inl AttributeError)"

text \<open>Lines 264 to 282: the keys set whether or not positions were given.\<close>

definition finish_metadata :: "dict \<Rightarrow> json \<Rightarrow> dict \<Rightarrow> dict" where
  "finish_metadata data new_filter_scopes md =
     (let md1 = (if py_truthy new_filter_scopes
                 then AList.update ''filter_scopes'' new_filter_scopes md
                 else AList.delete ''filter_scopes'' md);
          md2 = dict_setdefault ''timed_refresh_immune_slices'' (JArr []) md1;
          md3 = (case dict_get data ''color_namespace'' of
                   None \<Rightarrow> AList.delete ''color_namespace'' md2
                 | Some v \<Rightarrow> AList.update ''color_namespace'' v md2);
          md4 = AList.update ''expanded_slices''
                  (dict_get_default data ''expanded_slices'' (JObj [])) md3;
          md5 = AList.update ''refresh_frequency''
                  (dict_get_default data ''refresh_frequency'' (JInt 0)) md4;
          md6 = AList.update ''color_scheme''
                  (dict_get_default data ''color_scheme'' (JStr [])) md5;
          md7 = AList.update ''label_colors''
                  (dict_get_default data ''label_colors'' (JObj [])) md6;
          md8 = AList.update ''shared_label_colors''
                  (dict_get_default data ''shared_label_colors'' (JObj [])) md7;
          md9 = AList.update ''color_scheme_domain''
                  (dict_get_default data ''color_scheme_domain'' (JArr [])) md8
      in AList.update ''cross_filters_enabled''
           (dict_get_default data ''cross_filters_enabled'' (JBool True)) md9)"

text \<open>Lines 259 to 262: the two attributes that are not part of the metadata.\<close>

definition set_css_and_title :: "dict \<Rightarrow> dashboard \<Rightarrow> dashboard" where
  "set_css_and_title data d =
     (let d1 = (case dict_get data ''css'' of None \<Rightarrow> d | Some c \<Rightarrow> d\<lparr>css := c\<rparr>)
      in case dict_get data ''dashboard_title'' of
           None \<Rightarrow> d1
         | Some t \<Rightarrow> d1\<lparr>dashboard_title := t\<rparr>)"

text \<open>
  The whole of \<^verbatim>\<open>set_dash_metadata\<close>, with what it leaves behind besides the
  dashboard: the payload, whose positions were annotated in place, and the metadata
  dictionary that line 283 serialises.
\<close>

definition set_dash_metadata_run ::
  "env \<Rightarrow> dashboard \<Rightarrow> dict \<Rightarrow> (int \<times> int) list option \<Rightarrow> bool
     \<Rightarrow> error + (dashboard \<times> dict \<times> dict)" where
  "set_dash_metadata_run env dashboard data old_to_new_slice_ids commit =
     (case params_dict env dashboard of
        Inl e \<Rightarrow> Inl e
      | Inr md \<Rightarrow>
          (case (case dict_get data ''positions'' of
                   None \<Rightarrow> Inr (dashboard, data, md, JObj [])
                 | Some positions \<Rightarrow>
                     (case positions_branch env data old_to_new_slice_ids positions dashboard md of
                        Inl e \<Rightarrow> Inl e
                      | Inr (d1, positions', md1, new_filter_scopes) \<Rightarrow>
                          Inr (d1, AList.update ''positions'' positions' data, md1,
                               new_filter_scopes))) of
             Inl e \<Rightarrow> Inl e
           | Inr (d1, data1, md1, new_filter_scopes) \<Rightarrow>
               (let md2 = finish_metadata data new_filter_scopes md1;
                    d2 = (set_css_and_title data d1)\<lparr>json_metadata := json_dumps (JObj md2)\<rparr>
                in case (if commit then session_commit env else None) of
                     Some e \<Rightarrow> Inl e
                   | None \<Rightarrow> Inr (d2, data1, md2))))"

definition set_dash_metadata ::
  "env \<Rightarrow> dashboard \<Rightarrow> dict \<Rightarrow> (int \<times> int) list option \<Rightarrow> bool \<Rightarrow> error + dashboard" where
  "set_dash_metadata env dashboard data old_to_new_slice_ids commit =
     (case set_dash_metadata_run env dashboard data old_to_new_slice_ids commit of
        Inl e \<Rightarrow> Inl e
      | Inr r \<Rightarrow> Inr (fst r))"

section \<open>Example inputs\<close>

text \<open>Concrete dashboards, charts and stores at which the theorems below are instantiated.\<close>

definition ex_dashboard :: dashboard where
  "ex_dashboard =
     \<lparr> dash_id = 1, slug = None, dashboard_title = JStr ''Sales'', css = JStr [],
       position_json = [], json_metadata = [], changed_on = 1700000000250000,
       slices = [], datasources = [], owners = [7], embedded = [] \<rparr>"


definition ex_chart :: slice where
  "ex_chart =
     \<lparr> slice_id = 1, slice_uuid = ''3b0e7a52-0000-4000-8000-000000000001'',
       slice_changed_on = 1700000005750000 \<rparr>"

definition ex_rows :: "dashboard list" where
  "ex_rows = [ex_dashboard, ex_dashboard\<lparr>dash_id := 2, slug := Some []\<rparr>]"

definition ex_session :: mem_session where
  "ex_session = \<lparr> pending = ex_rows, committed = ex_rows \<rparr>"

text \<open>The session after \<^const>\<open>ex_dashboard\<close> was merged with its relationships emptied.\<close>

definition ex_session_detached :: mem_session where
  "ex_session_detached =
     ex_session\<lparr>pending := [ex_dashboard\<lparr>owners := []\<rparr>,
                             ex_dashboard\<lparr>dash_id := 2, slug := Some []\<rparr>]\<rparr>"

text \<open>The session after the row of \<^const>\<open>ex_dashboard\<close> was deleted, before the commit.\<close>

definition ex_session_deleted :: mem_session where
  "ex_session_deleted =
     ex_session\<lparr>pending := [ex_dashboard\<lparr>dash_id := 2, slug := Some []\<rparr>]\<rparr>"

text \<open>The in-memory session with a fault injected into the deletion or the commit.\<close>

definition faulty_mem_ops :: "error option \<Rightarrow> error option \<Rightarrow> mem_session session_ops" where
  "faulty_mem_ops delete_fault commit_fault =
     mem_ops\<lparr> sess_delete := (\<lambda>ids s. case delete_fault of
                                          Some e \<Rightarrow> (Some e, s)
                                        | None \<Rightarrow> sess_delete mem_ops ids s),
              sess_commit := (\<lambda>s. case commit_fault of
                                     Some e \<Rightarrow> (Some e, s)
                                   | None \<Rightarrow> sess_commit mem_ops s) \<rparr>"

text \<open>A \<^verbatim>\<open>json.loads\<close> that knows the three documents the examples parse.\<close>

definition ex_loads :: "string \<Rightarrow> error + json" where
  "ex_loads s =
     (if s = ''{}'' then Inr (JObj [])
      else if s = ''{\"1\": \"a\", \"2\": \"b\"}''
        then Inr (JObj [(''1'', JStr ''a''), (''2'', JStr ''b'')])
      else if s = ''{\"x\": 1}'' then Inr (JObj [(''x'', JInt 1)])
      else Inl JSONDecodeError)"

text \<open>The collaborators of the examples: the persisted metadata document is the argument,
  the chart table holds \<^const>\<open>ex_chart\<close> alone, the filter-scope collaborator returns the old
  scopes and the commit raises nothing.\<close>

definition ex_env :: "dict \<Rightarrow> env" where
  "ex_env md =
     \<lparr> params_dict = (\<lambda>d. Inr md),
       json_loads = ex_loads,
       copy_filter_scopes = (\<lambda>table old. Inr old),
       query_slices = (\<lambda>ids. Inr (filter (\<lambda>s. py_int_in (slice_id s) ids) [ex_chart])),
       session_commit = None \<rparr>"

text \<open>A metadata document that carries a \<^verbatim>\<open>positions\<close> key.\<close>

definition ex_md_with_positions :: dict where
  "ex_md_with_positions =
     [(''positions'', JObj []),
      (''timed_refresh_immune_slices'', JArr []),
      (''expanded_slices'', JObj []),
      (''refresh_frequency'', JInt 0),
      (''color_scheme'', JStr []),
      (''label_colors'', JObj []),
      (''shared_label_colors'', JObj []),
      (''color_scheme_domain'', JArr []),
      (''cross_filters_enabled'', JBool True)]"

text \<open>A persisted metadata document with default filters and a key of its own.\<close>

definition ex_md_filters :: dict where
  "ex_md_filters = [(''default_filters'', JStr ''{\"1\": \"a\"}''), (''custom'', JInt 5)]"

text \<open>An update whose \<^verbatim>\<open>positions\<close> is \<^verbatim>\<open>null\<close>.\<close>

definition ex_data_null_positions :: dict where
  "ex_data_null_positions = [(''dashboard_title'', JStr ''Sales Q2''), (''positions'', JNull)]"



text \<open>An update made of positions and the text of the default filters.\<close>

definition ex_data :: "dict \<Rightarrow> string \<Rightarrow> dict" where
  "ex_data positions default_filters =
     [(''positions'', JObj positions), (''default_filters'', JStr default_filters)]"

text \<open>
  Positions whose only entry is a dictionary without \<^verbatim>\<open>type\<close>.
\<close>

definition ex_positions_untyped :: dict where
  "ex_positions_untyped = [(''a'', JObj [])]"

text \<open>
  Positions whose only entry is a chart reference without \<^verbatim>\<open>meta\<close>.
\<close>

definition ex_positions_no_meta :: dict where
  "ex_positions_no_meta = [(''b'', JObj [(''type'', JStr ''CHART'')])]"

text \<open>
  Positions with a version marker, a reference to chart 2 (which does not exist), a row
  and a reference to chart 1.
\<close>

definition ex_positions_mixed :: dict where
  "ex_positions_mixed =
     [(''DASHBOARD_VERSION_KEY'', JStr ''v2''),
      (''CHART-b'', JObj [(''type'', JStr ''CHART''), (''meta'', JObj [(''chartId'', JInt 2)])]),
      (''ROW-1'', JObj [(''type'', JStr ''ROW'')]),
      (''CHART-a'', JObj [(''type'', JStr ''CHART''),
                          (''meta'', JObj [(''chartId'', JInt 1), (''width'', JInt 4)])])]"

text \<open>
  An update with positions, default filters, filter scopes, a colour namespace and a title.
\<close>

definition ex_data_full :: dict where
  "ex_data_full =
     [(''positions'', JObj ex_positions_mixed),
      (''default_filters'', JStr ''{\"1\": \"a\", \"2\": \"b\"}''),
      (''filter_scopes'', JObj [(''1'', JObj [(''region'', JObj [(''immune'', JArr [])])])]),
      (''color_namespace'', JStr ''sales''),
      (''dashboard_title'', JStr ''Sales Q2'')]"

text \<open>
  The metadata dictionary that the call leaves for \<^const>\<open>ex_data_full\<close> on an empty
  persisted document.
\<close>

definition ex_md_reconciled :: dict where
  "ex_md_reconciled =
     [(''default_filters'', JStr ''{\"1\": \"a\", \"2\": \"b\"}''),
      (''filter_scopes'', JObj [(''1'', JObj [(''region'', JObj [(''immune'', JArr [])])])]),
      (''timed_refresh_immune_slices'', JArr []),
      (''color_namespace'', JStr ''sales''),
      (''expanded_slices'', JObj []),
      (''refresh_frequency'', JInt 0),
      (''color_scheme'', JStr []),
      (''label_colors'', JObj []),
      (''shared_label_colors'', JObj []),
      (''color_scheme_domain'', JArr []),
      (''cross_filters_enabled'', JBool True)]"

text \<open>
  A reader of the metadata field that knows the documents listed: it returns the one
  whose serialisation the field holds, and the empty dictionary for an empty field.
\<close>

definition ex_params_dict :: "dict list \<Rightarrow> dashboard \<Rightarrow> error + dict" where
  "ex_params_dict known d =
     (if json_metadata d = [] then Inr []
      else case find (\<lambda>md. json_dumps (JObj md) = json_metadata d) known of
             Some md \<Rightarrow> Inr md
           | None \<Rightarrow> Inl JSONDecodeError)"

text \<open>
  The collaborators of the examples, with the metadata read back from the dashboard.
\<close>

definition ex_env_reading :: env where
  "ex_env_reading = (ex_env [])\<lparr>params_dict := ex_params_dict [ex_md_reconciled]\<rparr>"

section \<open>Verified properties\<close>

subsection \<open>Timestamps\<close>










subsection \<open>Slug uniqueness\<close>

text \<open>
  C3 (amended). Whatever the table holds, the creation check accepts the empty slug and
  the update check accepts an absent slug. The update check accepts the empty string
  exactly when no other dashboard has the empty string as its slug.
\<close>

theorem slug_uniqueness_empty_or_absent:
  "validate_slug_uniqueness rows [] \<and>
   validate_update_slug_uniqueness rows dashboard_id None \<and>
   (validate_update_slug_uniqueness rows dashboard_id (Some []) \<longleftrightarrow>
      (\<forall>d \<in> set rows. slug d = Some [] \<longrightarrow> dash_id d = dashboard_id))"
  by (auto simp: validate_slug_uniqueness_def validate_update_slug_uniqueness_def list_ex_iff)

theorem slug_uniqueness_empty_or_absent_witness:
  "validate_slug_uniqueness ex_rows [] \<and>
   validate_update_slug_uniqueness ex_rows 2 None \<and>
   validate_update_slug_uniqueness ex_rows 2 (Some [])"
  using slug_uniqueness_empty_or_absent [of ex_rows 2]
  by (simp add: ex_rows_def ex_dashboard_def)

text \<open>
  C3 as stated fails: dashboard 2 has the empty string as its slug, so the update check
  for dashboard 1 and the empty string reports a conflict.
\<close>

theorem update_slug_empty_counterexample:
  "validate_update_slug_uniqueness ex_rows 1 (Some []) = False"
  by (simp add: validate_update_slug_uniqueness_def ex_rows_def ex_dashboard_def)

subsection \<open>Bulk delete\<close>

text \<open>
  C7. Once the relationships are detached, a storage error raised by the row deletion,
  or by the commit after a deletion that went through, is answered by a rollback of the
  session as the failed operation left it, and the same error is raised again.
\<close>

theorem bulk_delete_rolls_back_and_reraises:
  assumes "detach_related ops (case models of None \<Rightarrow> [] | Some ms \<Rightarrow> ms) s = (None, s1)"
  shows "(sess_delete ops (map dash_id (case models of None \<Rightarrow> [] | Some ms \<Rightarrow> ms)) s1
            = (Some (SQLAlchemyError msg), s2)
          \<longrightarrow> bulk_delete ops models commit s
                = (Some (SQLAlchemyError msg), sess_rollback ops s2))
       \<and> (sess_delete ops (map dash_id (case models of None \<Rightarrow> [] | Some ms \<Rightarrow> ms)) s1
            = (None, s2)
          \<and> sess_commit ops s2 = (Some (SQLAlchemyError msg), s3)
          \<longrightarrow> bulk_delete ops models True s
                = (Some (SQLAlchemyError msg), sess_rollback ops s3))"
proof (cases models)
  case None
  with assms show ?thesis
    by (simp add: bulk_delete_def delete_rows_def on_delete_error_def)
next
  case (Some ms)
  with assms show ?thesis
    by (cases ms) (simp_all add: bulk_delete_def delete_rows_def on_delete_error_def)
qed

text \<open>
  The theorem at a session whose deletion fails and at one whose commit fails: in both
  the pending changes are gone and the error comes back as raised.
\<close>

theorem bulk_delete_rolls_back_and_reraises_witness:
  "detach_related (faulty_mem_ops (Some (SQLAlchemyError ''connection lost'')) None)
     [ex_dashboard] ex_session = (None, ex_session_detached)
   \<and> bulk_delete (faulty_mem_ops (Some (SQLAlchemyError ''connection lost'')) None)
     (Some [ex_dashboard]) True ex_session
     = (Some (SQLAlchemyError ''connection lost''), ex_session)
   \<and> sess_delete (faulty_mem_ops None (Some (SQLAlchemyError ''deadlock''))) [1]
       ex_session_detached = (None, ex_session_deleted)
   \<and> bulk_delete (faulty_mem_ops None (Some (SQLAlchemyError ''deadlock'')))
     (Some [ex_dashboard]) True ex_session
     = (Some (SQLAlchemyError ''deadlock''), ex_session)"
  using bulk_delete_rolls_back_and_reraises
          [where ops = "faulty_mem_ops (Some (SQLAlchemyError ''connection lost'')) None"
             and models = "Some [ex_dashboard]" and s = ex_session
             and ?s1.0 = ex_session_detached and msg = "''connection lost''"
             and ?s2.0 = ex_session_detached and commit = True]
        bulk_delete_rolls_back_and_reraises
          [where ops = "faulty_mem_ops None (Some (SQLAlchemyError ''deadlock''))"
             and models = "Some [ex_dashboard]" and s = ex_session
             and ?s1.0 = ex_session_detached and msg = "''deadlock''"
             and ?s2.0 = ex_session_deleted and ?s3.0 = ex_session_deleted]
  by (simp add: faulty_mem_ops_def mem_ops_def ex_session_def ex_session_detached_def
        ex_session_deleted_def ex_rows_def ex_dashboard_def)

text \<open>
  C10. With \<^verbatim>\<open>None\<close> or an empty list nothing is merged: the call is the deletion over
  the empty id list followed by the optional commit. On the in-memory session it raises
  nothing and the table of the open transaction is what it was.
\<close>

theorem bulk_delete_nothing:
  "bulk_delete ops None commit s = delete_rows ops [] commit s
   \<and> bulk_delete ops (Some []) commit s = delete_rows ops [] commit s
   \<and> bulk_delete mem_ops None commit m
       = (None, if commit then m\<lparr>committed := pending m\<rparr> else m)
   \<and> bulk_delete mem_ops (Some []) commit m
       = (None, if commit then m\<lparr>committed := pending m\<rparr> else m)"
  by (simp add: bulk_delete_def delete_rows_def mem_ops_def)

subsection \<open>Metadata reconciliation\<close>

lemma map_of_setdefault:
  "map_of (dict_setdefault k v d) k' =
     (if k' = k \<and> map_of d k = None then Some v else map_of d k')"
  by (auto simp: dict_setdefault_def update_conv' split: option.splits)

lemma finish_metadata_other_keys:
  assumes "k \<notin> {''filter_scopes'', ''timed_refresh_immune_slices'', ''color_namespace'',
                 ''expanded_slices'', ''refresh_frequency'', ''color_scheme'', ''label_colors'',
                 ''shared_label_colors'', ''color_scheme_domain'', ''cross_filters_enabled''}"
  shows "map_of (finish_metadata data nfs md) k = map_of md k"
  using assms
  by (simp add: finish_metadata_def Let_def update_conv' delete_conv' map_of_setdefault
        split: option.splits)

lemma finish_metadata_fixed:
  assumes "py_truthy nfs \<Longrightarrow> map_of m ''filter_scopes'' = Some nfs"
      and "\<not> py_truthy nfs \<Longrightarrow> map_of m ''filter_scopes'' = None"
      and "map_of m ''timed_refresh_immune_slices'' \<noteq> None"
      and "\<And>v. dict_get data ''color_namespace'' = Some v \<Longrightarrow> map_of m ''color_namespace'' = Some v"
      and "dict_get data ''color_namespace'' = None \<Longrightarrow> map_of m ''color_namespace'' = None"
      and "map_of m ''expanded_slices'' = Some (dict_get_default data ''expanded_slices'' (JObj []))"
      and "map_of m ''refresh_frequency'' = Some (dict_get_default data ''refresh_frequency'' (JInt 0))"
      and "map_of m ''color_scheme'' = Some (dict_get_default data ''color_scheme'' (JStr []))"
      and "map_of m ''label_colors'' = Some (dict_get_default data ''label_colors'' (JObj []))"
      and "map_of m ''shared_label_colors'' = Some (dict_get_default data ''shared_label_colors'' (JObj []))"
      and "map_of m ''color_scheme_domain'' = Some (dict_get_default data ''color_scheme_domain'' (JArr []))"
      and "map_of m ''cross_filters_enabled'' = Some (dict_get_default data ''cross_filters_enabled'' (JBool True))"
  shows "finish_metadata data nfs m = m"
proof -
  have a: "(if py_truthy nfs then AList.update ''filter_scopes'' nfs m
            else AList.delete ''filter_scopes'' m) = m"
    using assms(1,2) by (auto simp: update_triv map_of_eq_None_iff)
  have b: "dict_setdefault ''timed_refresh_immune_slices'' (JArr []) m = m"
    using assms(3) by (auto simp: dict_setdefault_def split: option.splits)
  have c: "(case dict_get data ''color_namespace'' of
              None \<Rightarrow> AList.delete ''color_namespace'' m
            | Some v \<Rightarrow> AList.update ''color_namespace'' v m) = m"
    using assms(4,5) by (auto simp: update_triv map_of_eq_None_iff split: option.splits)
  show ?thesis
    unfolding finish_metadata_def Let_def a b c
    by (simp add: update_triv assms(6-12))
qed

lemma finish_metadata_idem:
  "finish_metadata data nfs (finish_metadata data nfs md) = finish_metadata data nfs md"
  by (rule finish_metadata_fixed)
     (simp_all add: finish_metadata_def Let_def update_conv' delete_conv' map_of_setdefault
        split: option.splits)

lemma run_without_positions:
  assumes "dict_get data ''positions'' = None"
  shows "set_dash_metadata_run env d data old_to_new commit =
           (case params_dict env d of
              Inl e \<Rightarrow> Inl e
            | Inr md \<Rightarrow>
                (case (if commit then session_commit env else None) of
                   Some e \<Rightarrow> Inl e
                 | None \<Rightarrow>
                     Inr ((set_css_and_title data d)
                            \<lparr>json_metadata := json_dumps (JObj (finish_metadata data (JObj []) md))\<rparr>,
                          data, finish_metadata data (JObj []) md)))"
  using assms
  by (simp add: set_dash_metadata_run_def Let_def split: sum.splits option.splits)

lemma positions_branch_Inr:
  assumes "positions_branch env data old_to_new p d md = Inr (d1, p', md1, nfs)"
  shows "\<exists>ps ids cs ps' app.
           p = JObj ps \<and> slice_ids_of (map snd ps) = Inr ids \<and> query_slices env ids = Inr cs
         \<and> annotate_positions (uuid_map_of cs) ps = Inr ps'
         \<and> new_filter_scopes_of env data old_to_new ids = Inr nfs
         \<and> default_filters_of env data ids = Inr app
         \<and> d1 = d\<lparr>slices := cs, position_json := json_dumps_compact_sorted (JObj ps')\<rparr>
         \<and> p' = JObj ps'
         \<and> md1 = AList.delete ''positions''
                    (AList.update ''default_filters'' (JStr (json_dumps (JObj app))) md)"
  using assms
  by (auto simp: positions_branch_def split: json.splits sum.splits)

lemma run_with_positions:
  assumes "dict_get data ''positions'' = Some p"
      and "set_dash_metadata_run env d data old_to_new commit = Inr (d', data', md')"
  shows "\<exists>md ps ids cs ps' nfs app.
           params_dict env d = Inr md
         \<and> p = JObj ps \<and> slice_ids_of (map snd ps) = Inr ids \<and> query_slices env ids = Inr cs
         \<and> annotate_positions (uuid_map_of cs) ps = Inr ps'
         \<and> new_filter_scopes_of env data old_to_new ids = Inr nfs
         \<and> default_filters_of env data ids = Inr app
         \<and> md' = finish_metadata data nfs
                    (AList.delete ''positions''
                       (AList.update ''default_filters'' (JStr (json_dumps (JObj app))) md))
         \<and> data' = AList.update ''positions'' (JObj ps') data
         \<and> d' = (set_css_and_title data
                    (d\<lparr>slices := cs, position_json := json_dumps_compact_sorted (JObj ps')\<rparr>))
                  \<lparr>json_metadata := json_dumps (JObj md')\<rparr>
         \<and> (if commit then session_commit env else None) = None"
proof -
  from assms obtain md where md: "params_dict env d = Inr md"
    by (auto simp: set_dash_metadata_run_def split: sum.splits)
  from assms md obtain d1 p' md1 nfs
    where pb: "positions_branch env data old_to_new p d md = Inr (d1, p', md1, nfs)"
    by (auto simp: set_dash_metadata_run_def split: sum.splits)
  from positions_branch_Inr [OF pb] obtain ps ids cs ps' app where
    f: "p = JObj ps" "slice_ids_of (map snd ps) = Inr ids" "query_slices env ids = Inr cs"
       "annotate_positions (uuid_map_of cs) ps = Inr ps'"
       "new_filter_scopes_of env data old_to_new ids = Inr nfs"
       "default_filters_of env data ids = Inr app"
       "d1 = d\<lparr>slices := cs, position_json := json_dumps_compact_sorted (JObj ps')\<rparr>"
       "p' = JObj ps'"
       "md1 = AList.delete ''positions''
                (AList.update ''default_filters'' (JStr (json_dumps (JObj app))) md)"
    by blast
  from assms md pb have
    "md' = finish_metadata data nfs md1
     \<and> data' = AList.update ''positions'' p' data
     \<and> d' = (set_css_and_title data d1)\<lparr>json_metadata := json_dumps (JObj md')\<rparr>
     \<and> (if commit then session_commit env else None) = None"
    by (auto simp: set_dash_metadata_run_def Let_def split: option.splits if_splits)
  with md f show ?thesis by blast
qed

lemma keys_finish_metadata:
  assumes "k \<notin> {''filter_scopes'', ''timed_refresh_immune_slices'', ''color_namespace'',
                 ''expanded_slices'', ''refresh_frequency'', ''color_scheme'', ''label_colors'',
                 ''shared_label_colors'', ''color_scheme_domain'', ''cross_filters_enabled''}"
  shows "k \<in> fst ` set (finish_metadata data nfs md) \<longleftrightarrow> k \<in> fst ` set md"
  using finish_metadata_other_keys [OF assms, of data nfs md]
  by (metis map_of_eq_None_iff)

text \<open>
  C1 (amended). When \<^verbatim>\<open>set_dash_metadata\<close> returns, the metadata field holds the
  serialisation of the dictionary of line 283. If the update carries positions that are
  not \<^verbatim>\<open>None\<close>, that dictionary has no \<^verbatim>\<open>positions\<close> key. If the update has no
  positions, or \<^verbatim>\<open>null\<close>, the key is there exactly when the persisted metadata document
  had it.
\<close>

theorem positions_key_in_metadata:
  assumes "set_dash_metadata env dashboard data old_to_new commit = Inr d'"
  shows "\<exists>data' md'.
           set_dash_metadata_run env dashboard data old_to_new commit = Inr (d', data', md')
         \<and> json_metadata d' = json_dumps (JObj md')
         \<and> (dict_get data ''positions'' \<noteq> None \<longrightarrow> ''positions'' \<notin> fst ` set md')
         \<and> (dict_get data ''positions'' = None \<longrightarrow>
              (\<exists>md. params_dict env dashboard = Inr md
                  \<and> (''positions'' \<in> fst ` set md' \<longleftrightarrow> ''positions'' \<in> fst ` set md)))"
proof -
  from assms obtain data' md' where
    run: "set_dash_metadata_run env dashboard data old_to_new commit = Inr (d', data', md')"
    by (auto simp: set_dash_metadata_def split: sum.splits)
  show ?thesis
  proof (cases "dict_get data ''positions''")
    case None
    from run None obtain md where
      md: "params_dict env dashboard = Inr md"
      and r: "md' = finish_metadata data (JObj []) md"
             "json_metadata d' = json_dumps (JObj md')"
      by (auto simp: run_without_positions split: sum.splits option.splits if_splits)
    have "''positions'' \<in> fst ` set md' \<longleftrightarrow> ''positions'' \<in> fst ` set md"
      unfolding r(1) by (rule keys_finish_metadata) simp
    with run md r None show ?thesis by auto
  next
    case (Some p)
    from run_with_positions [OF Some run] obtain md nfs app where
      r: "md' = finish_metadata data nfs
                  (AList.delete ''positions''
                     (AList.update ''default_filters'' (JStr (json_dumps (JObj app))) md))"
         "json_metadata d' = json_dumps (JObj md')"
      by auto
    have "''positions'' \<notin> fst ` set md'"
      unfolding r(1) by (subst keys_finish_metadata) (simp_all add: delete_notin_dom)
    with run r Some show ?thesis by auto
  qed
qed

text \<open>
  The theorem at an update with empty positions, for a dashboard whose persisted
  metadata carries \<^verbatim>\<open>positions\<close>: the key is gone.
\<close>

theorem positions_key_in_metadata_witness:
  "set_dash_metadata (ex_env ex_md_with_positions) ex_dashboard
     [(''positions'', JObj [])] None False
     = Inr (ex_dashboard\<lparr>position_json := ''{}'',
              json_metadata := json_dumps (JObj (AList.update ''default_filters'' (JStr ''{}'')
                                 (AList.delete ''positions'' ex_md_with_positions)))\<rparr>)
   \<and> ''positions'' \<notin> fst ` set (AList.update ''default_filters'' (JStr ''{}'')
                                 (AList.delete ''positions'' ex_md_with_positions))"
proof -
  have r: "set_dash_metadata (ex_env ex_md_with_positions) ex_dashboard
             [(''positions'', JObj [])] None False
           = Inr (ex_dashboard\<lparr>position_json := ''{}'',
              json_metadata := json_dumps (JObj (AList.update ''default_filters'' (JStr ''{}'')
                                 (AList.delete ''positions'' ex_md_with_positions)))\<rparr>)"
    by code_simp
  from positions_key_in_metadata [OF r] show ?thesis
    using r by (simp add: ex_md_with_positions_def)
qed

text \<open>
  C1 as stated fails: the update is empty, the persisted metadata document carries
  \<^verbatim>\<open>positions\<close>, and the dictionary that is serialised still carries it.
\<close>

theorem positions_key_survives_counterexample:
  "set_dash_metadata_run (ex_env [(''positions'', JObj [])]) ex_dashboard [] None False
     = Inr (ex_dashboard\<lparr>json_metadata := json_dumps (JObj ex_md_with_positions)\<rparr>,
            [], ex_md_with_positions)
   \<and> dict_get [] ''positions'' = None
   \<and> map_of ex_md_with_positions ''positions'' = Some (JObj [])"
  by code_simp

lemma set_css_and_title_frame:
  "(set_css_and_title data d)\<lparr>css := css d, dashboard_title := dashboard_title d\<rparr> = d"
  "slices (set_css_and_title data d) = slices d"
  "position_json (set_css_and_title data d) = position_json d"
  by (simp_all add: set_css_and_title_def Let_def split: option.splits)

text \<open>
  C9. When the update has no positions, or \<^verbatim>\<open>null\<close>, a call that returns leaves the
  charts, the position document and the \<^verbatim>\<open>default_filters\<close> entry as they were; in the
  metadata only the ten keys of lines 264 to 282 can differ from the persisted document,
  and on the dashboard only the style sheet, the title and the metadata field. The call
  returns exactly when the persisted metadata can be read and the commit, if asked for,
  raises nothing.
\<close>

theorem positions_absent_frame:
  assumes "dict_get data ''positions'' = None"
  shows "(\<forall>d'. set_dash_metadata env dashboard data old_to_new commit = Inr d' \<longrightarrow>
            (\<exists>md md'.
               params_dict env dashboard = Inr md
             \<and> set_dash_metadata_run env dashboard data old_to_new commit = Inr (d', data, md')
             \<and> json_metadata d' = json_dumps (JObj md')
             \<and> slices d' = slices dashboard
             \<and> position_json d' = position_json dashboard
             \<and> map_of md' ''default_filters'' = map_of md ''default_filters''
             \<and> (\<forall>k. k \<notin> {''filter_scopes'', ''timed_refresh_immune_slices'',
                          ''color_namespace'', ''expanded_slices'', ''refresh_frequency'',
                          ''color_scheme'', ''label_colors'', ''shared_label_colors'',
                          ''color_scheme_domain'', ''cross_filters_enabled''}
                     \<longrightarrow> map_of md' k = map_of md k)
             \<and> d'\<lparr>css := css dashboard, dashboard_title := dashboard_title dashboard,
                   json_metadata := json_metadata dashboard\<rparr> = dashboard))
       \<and> ((\<exists>d'. set_dash_metadata env dashboard data old_to_new commit = Inr d') \<longleftrightarrow>
            (\<exists>md. params_dict env dashboard = Inr md) \<and> (commit \<longrightarrow> session_commit env = None))"
proof -
  have total: "(\<exists>d'. set_dash_metadata env dashboard data old_to_new commit = Inr d') \<longleftrightarrow>
            (\<exists>md. params_dict env dashboard = Inr md) \<and> (commit \<longrightarrow> session_commit env = None)"
    by (auto simp: set_dash_metadata_def run_without_positions [OF assms]
          split: sum.splits option.splits)
  have frame: "\<exists>md md'.
               params_dict env dashboard = Inr md
             \<and> set_dash_metadata_run env dashboard data old_to_new commit = Inr (d', data, md')
             \<and> json_metadata d' = json_dumps (JObj md')
             \<and> slices d' = slices dashboard
             \<and> position_json d' = position_json dashboard
             \<and> map_of md' ''default_filters'' = map_of md ''default_filters''
             \<and> (\<forall>k. k \<notin> {''filter_scopes'', ''timed_refresh_immune_slices'',
                          ''color_namespace'', ''expanded_slices'', ''refresh_frequency'',
                          ''color_scheme'', ''label_colors'', ''shared_label_colors'',
                          ''color_scheme_domain'', ''cross_filters_enabled''}
                     \<longrightarrow> map_of md' k = map_of md k)
             \<and> d'\<lparr>css := css dashboard, dashboard_title := dashboard_title dashboard,
                   json_metadata := json_metadata dashboard\<rparr> = dashboard"
    if ret: "set_dash_metadata env dashboard data old_to_new commit = Inr d'" for d'
  proof -
    from ret obtain md where md: "params_dict env dashboard = Inr md"
      by (auto simp: set_dash_metadata_def run_without_positions [OF assms] split: sum.splits)
    define md' where "md' = finish_metadata data (JObj []) md"
    from ret md have
      run: "set_dash_metadata_run env dashboard data old_to_new commit = Inr (d', data, md')"
      and d': "d' = (set_css_and_title data dashboard)\<lparr>json_metadata := json_dumps (JObj md')\<rparr>"
      by (auto simp: set_dash_metadata_def run_without_positions [OF assms] md'_def
            split: sum.splits option.splits if_splits)
    have keep: "map_of md' k = map_of md k"
      if "k \<notin> {''filter_scopes'', ''timed_refresh_immune_slices'',
                 ''color_namespace'', ''expanded_slices'', ''refresh_frequency'',
                 ''color_scheme'', ''label_colors'', ''shared_label_colors'',
                 ''color_scheme_domain'', ''cross_filters_enabled''}" for k
      unfolding md'_def using that by (rule finish_metadata_other_keys)
    have df: "map_of md' ''default_filters'' = map_of md ''default_filters''"
      by (rule keep) simp
    have fields: "json_metadata d' = json_dumps (JObj md')" "slices d' = slices dashboard"
      "position_json d' = position_json dashboard"
      by (simp_all add: d' set_css_and_title_frame)
    have rest: "d'\<lparr>css := css dashboard, dashboard_title := dashboard_title dashboard,
                   json_metadata := json_metadata dashboard\<rparr> = dashboard"
      using set_css_and_title_frame(1) [where data = data and d = dashboard]
      by (simp add: d' set_css_and_title_def Let_def split: option.splits)
    from md run fields df keep rest show ?thesis by blast
  qed
  from total frame show ?thesis by blast
qed

text \<open>
  The theorem at an update with \<^verbatim>\<open>null\<close> positions and a new title.
\<close>

theorem positions_absent_frame_witness:
  "dict_get ex_data_null_positions ''positions'' = None
   \<and> set_dash_metadata (ex_env ex_md_filters)
        (ex_dashboard\<lparr>position_json := ''{\"a\":1}'', slices := [ex_chart]\<rparr>)
        ex_data_null_positions None False
      = Inr (ex_dashboard\<lparr>dashboard_title := JStr ''Sales Q2'', position_json := ''{\"a\":1}'',
               json_metadata := json_dumps (JObj (finish_metadata ex_data_null_positions (JObj [])
                                                   ex_md_filters)),
               slices := [ex_chart]\<rparr>)
   \<and> map_of (finish_metadata ex_data_null_positions (JObj []) ex_md_filters) ''default_filters''
      = Some (JStr ''{\"1\": \"a\"}'')"
proof -
  have h: "dict_get ex_data_null_positions ''positions'' = None"
    by code_simp
  have r: "set_dash_metadata (ex_env ex_md_filters)
        (ex_dashboard\<lparr>position_json := ''{\"a\":1}'', slices := [ex_chart]\<rparr>)
        ex_data_null_positions None False
      = Inr (ex_dashboard\<lparr>dashboard_title := JStr ''Sales Q2'', position_json := ''{\"a\":1}'',
               json_metadata := json_dumps (JObj (finish_metadata ex_data_null_positions (JObj [])
                                                   ex_md_filters)),
               slices := [ex_chart]\<rparr>)"
    by code_simp
  have m: "map_of (finish_metadata ex_data_null_positions (JObj []) ex_md_filters) ''default_filters''
      = Some (JStr ''{\"1\": \"a\"}'')"
    by code_simp
  from positions_absent_frame [OF h, of "ex_env ex_md_filters"
         "ex_dashboard\<lparr>position_json := ''{\"a\":1}'', slices := [ex_chart]\<rparr>" None False]
    h r m
  show ?thesis by simp
qed



lemma default_filters_after_finish:
  "map_of (finish_metadata data nfs
             (AList.delete ''positions'' (AList.update ''default_filters'' x md)))
     ''default_filters'' = Some x"
  by (subst finish_metadata_other_keys) (simp_all add: delete_conv' update_conv')







lemma run_with_positions_steps:
  assumes "params_dict env d = Inr md"
      and "dict_get data ''positions'' = Some (JObj ps)"
      and "slice_ids_of (map snd ps) = Inr ids"
      and "query_slices env ids = Inr cs"
      and "annotate_positions (uuid_map_of cs) ps = Inr ps'"
      and "new_filter_scopes_of env data old_to_new ids = Inr nfs"
  shows "set_dash_metadata_run env d data old_to_new commit =
           (case default_filters_of env data ids of
              Inl e \<Rightarrow> Inl e
            | Inr app \<Rightarrow>
                (case (if commit then session_commit env else None) of
                   Some e \<Rightarrow> Inl e
                 | None \<Rightarrow>
                     Inr ((set_css_and_title data
                             (d\<lparr>slices := cs,
                                position_json := json_dumps_compact_sorted (JObj ps')\<rparr>))
                            \<lparr>json_metadata := json_dumps (JObj (finish_metadata data nfs
                                (AList.delete ''positions''
                                   (AList.update ''default_filters''
                                      (JStr (json_dumps (JObj app))) md))))\<rparr>,
                          AList.update ''positions'' (JObj ps') data,
                          finish_metadata data nfs
                            (AList.delete ''positions''
                               (AList.update ''default_filters''
                                  (JStr (json_dumps (JObj app))) md)))))"
  using assms
  by (simp add: set_dash_metadata_run_def positions_branch_def Let_def
        split: sum.splits option.splits)




lemma find_snoc:
  "find P (xs @ [x]) = (case find P xs of None \<Rightarrow> (if P x then Some x else None) | Some y \<Rightarrow> Some y)"
  by (induction xs) simp_all

text \<open>
  What the dictionary of line 212 holds for an id: the uuid of the last chart of that id.
\<close>

lemma map_of_uuid_fold:
  "map_of (fold (\<lambda>s m. AList.update (slice_id s) (slice_uuid s) m) cs acc) n =
     (case find (\<lambda>c. slice_id c = n) (rev cs) of
        None \<Rightarrow> map_of acc n
      | Some c \<Rightarrow> Some (slice_uuid c))"
proof (induction cs arbitrary: acc)
  case Nil
  show ?case by simp
next
  case (Cons c cs)
  show ?case
    by (simp add: Cons.IH find_snoc update_conv' split: option.splits)
qed

lemma map_of_uuid_map_of:
  "map_of (uuid_map_of cs) n = map_option slice_uuid (find (\<lambda>c. slice_id c = n) (rev cs))"
  by (simp add: uuid_map_of_def map_of_uuid_fold split: option.splits)

lemma uuid_map_get_hashable:
  assumes "py_hashable cid"
  shows "uuid_map_get (uuid_map_of cs) cid =
           Inr (case json_num cid of
                  None \<Rightarrow> JNull
                | Some n \<Rightarrow> (case find (\<lambda>c. slice_id c = n) (rev cs) of
                               None \<Rightarrow> JNull
                             | Some c \<Rightarrow> JStr (slice_uuid c)))"
  using assms
  by (simp add: uuid_map_get_def map_of_uuid_map_of split: option.splits)

lemma annotate_obj_chart:
  assumes "map_of d ''type'' = Some (JStr ''CHART'')"
      and "map_of d ''meta'' = Some (JObj meta)"
      and "map_of meta ''chartId'' = Some cid"
      and "py_truthy cid" and "py_hashable cid"
  shows "annotate_obj (uuid_map_of cs) (JObj d) =
           Inr (JObj (AList.update ''meta''
                  (JObj (AList.update ''uuid''
                     (case json_num cid of
                        None \<Rightarrow> JNull
                      | Some n \<Rightarrow> (case find (\<lambda>c. slice_id c = n) (rev cs) of
                                     None \<Rightarrow> JNull
                                   | Some c \<Rightarrow> JStr (slice_uuid c)))
                     meta)) d))"
  using assms
  by (simp add: annotate_obj_def dict_index_def py_subscript_def py_store_def
        uuid_map_get_hashable)

lemma annotate_obj_skip:
  assumes "\<forall>d. obj = JObj d \<longrightarrow>
             (\<exists>t. map_of d ''type'' = Some t
                \<and> (t = JStr ''CHART'' \<longrightarrow>
                     (\<exists>meta cid. map_of d ''meta'' = Some (JObj meta)
                        \<and> map_of meta ''chartId'' = Some cid
                        \<and> (py_truthy cid \<longrightarrow> py_hashable cid))))"
      and "\<not> (\<exists>d meta cid. obj = JObj d \<and> map_of d ''type'' = Some (JStr ''CHART'')
               \<and> map_of d ''meta'' = Some (JObj meta) \<and> map_of meta ''chartId'' = Some cid
               \<and> py_truthy cid)"
  shows "annotate_obj m obj = Inr obj"
proof (cases obj)
  case (JObj d)
  with assms(1) obtain t where t: "map_of d ''type'' = Some t"
    and c: "t = JStr ''CHART'' \<longrightarrow>
              (\<exists>meta cid. map_of d ''meta'' = Some (JObj meta)
                 \<and> map_of meta ''chartId'' = Some cid)"
    by blast
  show ?thesis
  proof (cases "t = JStr ''CHART''")
    case False
    with JObj t show ?thesis by (simp add: annotate_obj_def dict_index_def)
  next
    case True
    with c obtain meta cid where
      m: "map_of d ''meta'' = Some (JObj meta)" "map_of meta ''chartId'' = Some cid"
      by blast
    with assms(2) JObj t True have "\<not> py_truthy cid" by blast
    with JObj t True m show ?thesis
      by (simp add: annotate_obj_def dict_index_def py_subscript_def)
  qed
qed (simp_all add: annotate_obj_def)

lemma annotate_positions_map:
  assumes "\<forall>p \<in> set ps. \<not> isl (annotate_obj m (snd p))"
  shows "annotate_positions m ps = Inr (map (\<lambda>p. (fst p, projr (annotate_obj m (snd p)))) ps)"
  using assms
proof (induction ps)
  case Nil
  show ?case by simp
next
  case (Cons p ps)
  then show ?case by (cases "annotate_obj m (snd p)") simp_all
qed

text \<open>
  C5 (amended). Let every dictionary among the positions have a \<^verbatim>\<open>type\<close>, and every one
  of type \<^verbatim>\<open>CHART\<close> a dictionary \<^verbatim>\<open>meta\<close> with a \<^verbatim>\<open>chartId\<close> that, when truthy, is
  hashable. Then the annotation loop raises nothing, whatever charts the store returned.
  It keeps the keys and their order; an entry of type \<^verbatim>\<open>CHART\<close> with a truthy chart id
  gets \<^verbatim>\<open>uuid\<close> in its \<^verbatim>\<open>meta\<close>, the uuid of the returned chart of that id, or
  \<^verbatim>\<open>None\<close> if there is none; every other entry stays as it is. If the other steps of
  the call go through, the call returns, the dashboard has the returned charts and its
  position document is the sorted compact serialisation of the annotated positions.
\<close>

theorem chart_references_receive_uuid:
  assumes wf: "\<forall>p \<in> set ps. \<forall>d. snd p = JObj d \<longrightarrow>
             (\<exists>t. map_of d ''type'' = Some t
                \<and> (t = JStr ''CHART'' \<longrightarrow>
                     (\<exists>meta cid. map_of d ''meta'' = Some (JObj meta)
                        \<and> map_of meta ''chartId'' = Some cid
                        \<and> (py_truthy cid \<longrightarrow> py_hashable cid))))"
  shows "\<exists>ps'.
           annotate_positions (uuid_map_of cs) ps = Inr ps'
         \<and> map fst ps' = map fst ps
         \<and> (\<forall>i < length ps. \<forall>d meta cid.
               snd (ps ! i) = JObj d \<and> map_of d ''type'' = Some (JStr ''CHART'')
               \<and> map_of d ''meta'' = Some (JObj meta) \<and> map_of meta ''chartId'' = Some cid
               \<and> py_truthy cid \<longrightarrow>
               snd (ps' ! i) =
                 JObj (AList.update ''meta''
                   (JObj (AList.update ''uuid''
                      (case json_num cid of
                         None \<Rightarrow> JNull
                       | Some n \<Rightarrow> (case find (\<lambda>c. slice_id c = n) (rev cs) of
                                      None \<Rightarrow> JNull
                                    | Some c \<Rightarrow> JStr (slice_uuid c)))
                      meta)) d))
         \<and> (\<forall>i < length ps.
               \<not> (\<exists>d meta cid. snd (ps ! i) = JObj d
                     \<and> map_of d ''type'' = Some (JStr ''CHART'')
                     \<and> map_of d ''meta'' = Some (JObj meta)
                     \<and> map_of meta ''chartId'' = Some cid \<and> py_truthy cid) \<longrightarrow>
               ps' ! i = ps ! i)
         \<and> (params_dict env dashboard = Inr md
              \<and> dict_get data ''positions'' = Some (JObj ps)
              \<and> slice_ids_of (map snd ps) = Inr ids
              \<and> query_slices env ids = Inr cs
              \<and> new_filter_scopes_of env data old_to_new ids = Inr nfs
              \<and> default_filters_of env data ids = Inr app
              \<and> (commit \<longrightarrow> session_commit env = None) \<longrightarrow>
              (\<exists>d' data' md'.
                 set_dash_metadata_run env dashboard data old_to_new commit = Inr (d', data', md')
               \<and> set_dash_metadata env dashboard data old_to_new commit = Inr d'
               \<and> slices d' = cs
               \<and> position_json d' = json_dumps_compact_sorted (JObj ps')
               \<and> map_of data' ''positions'' = Some (JObj ps')))"
proof -
  let ?m = "uuid_map_of cs"
  let ?ps' = "map (\<lambda>p. (fst p, projr (annotate_obj ?m (snd p)))) ps"
  have each: "annotate_obj ?m (snd p) =
                Inr (JObj (AList.update ''meta''
                   (JObj (AList.update ''uuid''
                      (case json_num cid of
                         None \<Rightarrow> JNull
                       | Some n \<Rightarrow> (case find (\<lambda>c. slice_id c = n) (rev cs) of
                                      None \<Rightarrow> JNull
                                    | Some c \<Rightarrow> JStr (slice_uuid c)))
                      meta)) d))"
    if "p \<in> set ps" "snd p = JObj d" "map_of d ''type'' = Some (JStr ''CHART'')"
       "map_of d ''meta'' = Some (JObj meta)" "map_of meta ''chartId'' = Some cid"
       "py_truthy cid" for p d meta cid
  proof -
    from wf that have "py_hashable cid" by fastforce
    with that show ?thesis by (simp add: annotate_obj_chart)
  qed
  have skip: "annotate_obj ?m (snd p) = Inr (snd p)"
    if "p \<in> set ps"
       "\<not> (\<exists>d meta cid. snd p = JObj d \<and> map_of d ''type'' = Some (JStr ''CHART'')
               \<and> map_of d ''meta'' = Some (JObj meta) \<and> map_of meta ''chartId'' = Some cid
               \<and> py_truthy cid)" for p
    using wf that by (intro annotate_obj_skip) auto
  have ok: "\<forall>p \<in> set ps. \<not> isl (annotate_obj ?m (snd p))"
  proof
    fix p assume p: "p \<in> set ps"
    show "\<not> isl (annotate_obj ?m (snd p))"
    proof (cases "\<exists>d meta cid. snd p = JObj d \<and> map_of d ''type'' = Some (JStr ''CHART'')
               \<and> map_of d ''meta'' = Some (JObj meta) \<and> map_of meta ''chartId'' = Some cid
               \<and> py_truthy cid")
      case True
      then obtain d meta cid where "snd p = JObj d" "map_of d ''type'' = Some (JStr ''CHART'')"
        "map_of d ''meta'' = Some (JObj meta)" "map_of meta ''chartId'' = Some cid"
        "py_truthy cid" by blast
      from each [OF p this] show ?thesis by simp
    next
      case False
      from skip [OF p False] show ?thesis by simp
    qed
  qed
  have ann: "annotate_positions ?m ps = Inr ?ps'"
    by (rule annotate_positions_map [OF ok])
  have keys: "map fst ?ps' = map fst ps"
    by (simp add: comp_def)
  have charts: "\<forall>i < length ps. \<forall>d meta cid.
               snd (ps ! i) = JObj d \<and> map_of d ''type'' = Some (JStr ''CHART'')
               \<and> map_of d ''meta'' = Some (JObj meta) \<and> map_of meta ''chartId'' = Some cid
               \<and> py_truthy cid \<longrightarrow>
               snd (?ps' ! i) =
                 JObj (AList.update ''meta''
                   (JObj (AList.update ''uuid''
                      (case json_num cid of
                         None \<Rightarrow> JNull
                       | Some n \<Rightarrow> (case find (\<lambda>c. slice_id c = n) (rev cs) of
                                      None \<Rightarrow> JNull
                                    | Some c \<Rightarrow> JStr (slice_uuid c)))
                      meta)) d)"
  proof (intro allI impI, elim conjE)
    fix i d meta cid
    assume i: "i < length ps" and a: "snd (ps ! i) = JObj d"
      "map_of d ''type'' = Some (JStr ''CHART'')" "map_of d ''meta'' = Some (JObj meta)"
      "map_of meta ''chartId'' = Some cid" "py_truthy cid"
    from each [OF nth_mem [OF i] a] i
    show "snd (?ps' ! i) =
                 JObj (AList.update ''meta''
                   (JObj (AList.update ''uuid''
                      (case json_num cid of
                         None \<Rightarrow> JNull
                       | Some n \<Rightarrow> (case find (\<lambda>c. slice_id c = n) (rev cs) of
                                      None \<Rightarrow> JNull
                                    | Some c \<Rightarrow> JStr (slice_uuid c)))
                      meta)) d)"
      by simp
  qed
  have others: "\<forall>i < length ps.
               \<not> (\<exists>d meta cid. snd (ps ! i) = JObj d
                     \<and> map_of d ''type'' = Some (JStr ''CHART'')
                     \<and> map_of d ''meta'' = Some (JObj meta)
                     \<and> map_of meta ''chartId'' = Some cid \<and> py_truthy cid) \<longrightarrow>
               ?ps' ! i = ps ! i"
  proof (intro allI impI)
    fix i assume i: "i < length ps"
      and n: "\<not> (\<exists>d meta cid. snd (ps ! i) = JObj d
                     \<and> map_of d ''type'' = Some (JStr ''CHART'')
                     \<and> map_of d ''meta'' = Some (JObj meta)
                     \<and> map_of meta ''chartId'' = Some cid \<and> py_truthy cid)"
    from skip [OF nth_mem [OF i] n] i show "?ps' ! i = ps ! i" by simp
  qed
  have top: "\<exists>d' data' md'.
                 set_dash_metadata_run env dashboard data old_to_new commit = Inr (d', data', md')
               \<and> set_dash_metadata env dashboard data old_to_new commit = Inr d'
               \<and> slices d' = cs
               \<and> position_json d' = json_dumps_compact_sorted (JObj ?ps')
               \<and> map_of data' ''positions'' = Some (JObj ?ps')"
    if steps: "params_dict env dashboard = Inr md"
              "dict_get data ''positions'' = Some (JObj ps)"
              "slice_ids_of (map snd ps) = Inr ids"
              "query_slices env ids = Inr cs"
              "new_filter_scopes_of env data old_to_new ids = Inr nfs"
              "default_filters_of env data ids = Inr app"
              "commit \<longrightarrow> session_commit env = None"
  proof -
    have c: "(if commit then session_commit env else None) = None"
      using steps(7) by simp
    note run = run_with_positions_steps [OF steps(1-4) ann steps(5), of commit]
    show ?thesis
      unfolding set_dash_metadata_def run steps(6) c
      by (simp add: set_css_and_title_frame update_conv')
  qed
  from ann keys charts others top show ?thesis by blast
qed

text \<open>
  C5 as stated fails: a dictionary without \<^verbatim>\<open>type\<close>, and a chart reference without
  \<^verbatim>\<open>meta\<close>, make the loop of lines 213 to 220 raise \<^verbatim>\<open>KeyError\<close>, and the call with it.
\<close>

theorem chart_references_without_keys_counterexample:
  "annotate_positions (uuid_map_of [ex_chart]) ex_positions_untyped = Inl (KeyError ''type'')
   \<and> set_dash_metadata (ex_env []) ex_dashboard (ex_data ex_positions_untyped ''{}'') None False
       = Inl (KeyError ''type'')
   \<and> annotate_positions (uuid_map_of [ex_chart]) ex_positions_no_meta = Inl (KeyError ''meta'')
   \<and> set_dash_metadata (ex_env []) ex_dashboard (ex_data ex_positions_no_meta ''{}'') None False
       = Inl (KeyError ''meta'')"
  by code_simp

text \<open>
  The theorem at positions that reference chart 1, which the store has, and chart 2,
  which it does not have: the first gets the uuid, the second \<^verbatim>\<open>null\<close>.
\<close>

theorem chart_references_receive_uuid_witness:
  "annotate_positions (uuid_map_of [ex_chart]) ex_positions_mixed =
     Inr [(''DASHBOARD_VERSION_KEY'', JStr ''v2''),
          (''CHART-b'', JObj [(''type'', JStr ''CHART''),
                              (''meta'', JObj [(''chartId'', JInt 2), (''uuid'', JNull)])]),
          (''ROW-1'', JObj [(''type'', JStr ''ROW'')]),
          (''CHART-a'', JObj [(''type'', JStr ''CHART''),
                              (''meta'', JObj [(''chartId'', JInt 1), (''width'', JInt 4),
                                 (''uuid'', JStr ''3b0e7a52-0000-4000-8000-000000000001'')])])]
   \<and> query_slices (ex_env []) [JInt 2, JNull, JInt 1] = Inr [ex_chart]
   \<and> (case set_dash_metadata (ex_env []) ex_dashboard (ex_data ex_positions_mixed ''{}'')
              None False of
         Inl e \<Rightarrow> None
       | Inr d \<Rightarrow> Some (position_json d, slices d))
     = Some (''{\"CHART-a\":{\"meta\":{\"chartId\":1,\"uuid\":\"3b0e7a52-0000-4000-8000-000000000001\",\"width\":4},\"type\":\"CHART\"},\"CHART-b\":{\"meta\":{\"chartId\":2,\"uuid\":null},\"type\":\"CHART\"},\"DASHBOARD_VERSION_KEY\":\"v2\",\"ROW-1\":{\"type\":\"ROW\"}}'',
             [ex_chart])"
proof -
  have wf: "\<forall>p \<in> set ex_positions_mixed. \<forall>d. snd p = JObj d \<longrightarrow>
             (\<exists>t. map_of d ''type'' = Some t
                \<and> (t = JStr ''CHART'' \<longrightarrow>
                     (\<exists>meta cid. map_of d ''meta'' = Some (JObj meta)
                        \<and> map_of meta ''chartId'' = Some cid
                        \<and> (py_truthy cid \<longrightarrow> py_hashable cid))))"
    by (simp add: ex_positions_mixed_def)
  have a: "annotate_positions (uuid_map_of [ex_chart]) ex_positions_mixed =
     Inr [(''DASHBOARD_VERSION_KEY'', JStr ''v2''),
          (''CHART-b'', JObj [(''type'', JStr ''CHART''),
                              (''meta'', JObj [(''chartId'', JInt 2), (''uuid'', JNull)])]),
          (''ROW-1'', JObj [(''type'', JStr ''ROW'')]),
          (''CHART-a'', JObj [(''type'', JStr ''CHART''),
                              (''meta'', JObj [(''chartId'', JInt 1), (''width'', JInt 4),
                                 (''uuid'', JStr ''3b0e7a52-0000-4000-8000-000000000001'')])])]"
    by code_simp
  have q: "query_slices (ex_env []) [JInt 2, JNull, JInt 1] = Inr [ex_chart]"
    by code_simp
  have r: "(case set_dash_metadata (ex_env []) ex_dashboard (ex_data ex_positions_mixed ''{}'')
              None False of
         Inl e \<Rightarrow> None
       | Inr d \<Rightarrow> Some (position_json d, slices d))
     = Some (''{\"CHART-a\":{\"meta\":{\"chartId\":1,\"uuid\":\"3b0e7a52-0000-4000-8000-000000000001\",\"width\":4},\"type\":\"CHART\"},\"CHART-b\":{\"meta\":{\"chartId\":2,\"uuid\":null},\"type\":\"CHART\"},\"DASHBOARD_VERSION_KEY\":\"v2\",\"ROW-1\":{\"type\":\"ROW\"}}'',
             [ex_chart])"
    by code_simp
  from chart_references_receive_uuid [OF wf, where cs = "[ex_chart]"] a q r
  show ?thesis by simp
qed

lemma set_css_and_title_again:
  "set_css_and_title data
     (((set_css_and_title data (d\<lparr>slices := cs, position_json := pj\<rparr>))
        \<lparr>json_metadata := jm\<rparr>)\<lparr>slices := cs, position_json := pj\<rparr>)
   = (set_css_and_title data (d\<lparr>slices := cs, position_json := pj\<rparr>))\<lparr>json_metadata := jm\<rparr>"
  by (simp add: set_css_and_title_def Let_def split: option.splits)

text \<open>
  Lines 252 and 255 change nothing in a dictionary that they and lines 264 to 282 have
  already produced.
\<close>

lemma positions_md_fixed:
  "AList.delete ''positions''
     (AList.update ''default_filters'' x
        (finish_metadata data nfs
           (AList.delete ''positions'' (AList.update ''default_filters'' x md))))
   = finish_metadata data nfs
       (AList.delete ''positions'' (AList.update ''default_filters'' x md))"
proof -
  let ?m = "finish_metadata data nfs
              (AList.delete ''positions'' (AList.update ''default_filters'' x md))"
  have "AList.update ''default_filters'' x ?m = ?m"
    by (rule update_triv) (rule default_filters_after_finish)
  moreover have "''positions'' \<notin> fst ` set ?m"
    by (subst keys_finish_metadata) (simp_all add: delete_notin_dom)
  ultimately show ?thesis by simp
qed

lemma second_run_same_payload:
  assumes "dict_get data ''positions'' = Some p"
      and "set_dash_metadata_run env d data old_to_new commit = Inr (d1, data1, md1)"
      and "params_dict env d1 = Inr md1"
  shows "set_dash_metadata_run env d1 data old_to_new commit = Inr (d1, data1, md1)"
proof -
  from run_with_positions [OF assms(1,2)] obtain md ps ids cs ps' nfs app where
    f: "p = JObj ps" "slice_ids_of (map snd ps) = Inr ids" "query_slices env ids = Inr cs"
       "annotate_positions (uuid_map_of cs) ps = Inr ps'"
       "new_filter_scopes_of env data old_to_new ids = Inr nfs"
       "default_filters_of env data ids = Inr app"
       "md1 = finish_metadata data nfs
                (AList.delete ''positions''
                   (AList.update ''default_filters'' (JStr (json_dumps (JObj app))) md))"
       "data1 = AList.update ''positions'' (JObj ps') data"
       "d1 = (set_css_and_title data
                (d\<lparr>slices := cs, position_json := json_dumps_compact_sorted (JObj ps')\<rparr>))
               \<lparr>json_metadata := json_dumps (JObj md1)\<rparr>"
       "(if commit then session_commit env else None) = None"
    by blast
  have pos: "dict_get data ''positions'' = Some (JObj ps)"
    using assms(1) f(1) by simp
  have md: "finish_metadata data nfs
              (AList.delete ''positions''
                 (AList.update ''default_filters'' (JStr (json_dumps (JObj app))) md1)) = md1"
    unfolding f(7) by (simp only: positions_md_fixed finish_metadata_idem)
  have d: "(set_css_and_title data
              (d1\<lparr>slices := cs, position_json := json_dumps_compact_sorted (JObj ps')\<rparr>))
             \<lparr>json_metadata := json_dumps (JObj md1)\<rparr> = d1"
  proof -
    have "set_css_and_title data
            (d1\<lparr>slices := cs, position_json := json_dumps_compact_sorted (JObj ps')\<rparr>) = d1"
      using set_css_and_title_again
              [where data = data and d = d and cs = cs
                 and pj = "json_dumps_compact_sorted (JObj ps')"
                 and jm = "json_dumps (JObj md1)"]
      unfolding f(9) [symmetric] .
    moreover have "json_metadata d1 = json_dumps (JObj md1)"
      by (subst f(9)) simp
    ultimately show ?thesis by simp
  qed
  show ?thesis
    unfolding run_with_positions_steps [OF assms(3) pos f(2,3,4,5), of commit]
    by (simp add: f(6,10) md d f(8))
qed

text \<open>
  An entry comes out of the annotation either as it was or with the uuid set.
\<close>

lemma annotate_obj_Inr:
  assumes "annotate_obj m obj = Inr obj'"
  shows "obj' = obj
       \<or> (\<exists>d meta cid u.
             obj = JObj d \<and> map_of d ''type'' = Some (JStr ''CHART'')
           \<and> map_of d ''meta'' = Some (JObj meta) \<and> map_of meta ''chartId'' = Some cid
           \<and> py_truthy cid \<and> uuid_map_get m cid = Inr u
           \<and> obj' = JObj (AList.update ''meta'' (JObj (AList.update ''uuid'' u meta)) d))"
  using assms
  by (auto simp: annotate_obj_def dict_index_def py_subscript_def py_store_def
        split: json.splits option.splits sum.splits if_splits)

lemma annotate_obj_again:
  assumes "annotate_obj m obj = Inr obj'"
  shows "annotate_obj m obj' = Inr obj'"
  using annotate_obj_Inr [OF assms] assms
  by (auto simp: annotate_obj_def dict_index_def py_subscript_def py_store_def update_conv')

lemma annotate_positions_again:
  assumes "annotate_positions m ps = Inr ps'"
  shows "annotate_positions m ps' = Inr ps'"
  using assms
proof (induction ps arbitrary: ps')
  case Nil
  then show ?case by simp
next
  case (Cons p ps)
  then show ?case
    by (auto simp: annotate_obj_again split: sum.splits)
qed

lemma slice_ids_of_annotated_head:
  assumes "annotate_obj m obj = Inr obj'"
      and "slice_ids_of rest' = slice_ids_of rest"
  shows "slice_ids_of (obj' # rest') = slice_ids_of (obj # rest)"
proof -
  from annotate_obj_Inr [OF assms(1)] show ?thesis
  proof (elim disjE exE conjE)
    assume "obj' = obj"
    with assms(2) show ?thesis by (cases obj) (simp_all split: json.splits)
  next
    fix d meta cid u
    assume "obj = JObj d" "map_of d ''meta'' = Some (JObj meta)"
      "obj' = JObj (AList.update ''meta'' (JObj (AList.update ''uuid'' u meta)) d)"
    with assms(2) show ?thesis
      by (simp add: dict_get_default_def update_conv' split: sum.splits)
  qed
qed

lemma slice_ids_of_annotated:
  assumes "annotate_positions m ps = Inr ps'"
  shows "slice_ids_of (map snd ps') = slice_ids_of (map snd ps)"
  using assms
proof (induction ps arbitrary: ps')
  case Nil
  then show ?case by simp
next
  case (Cons p ps)
  then show ?case
    by (auto simp: slice_ids_of_annotated_head split: sum.splits)
qed

lemma payload_with_positions:
  assumes "k \<noteq> ''positions''"
  shows "map_of (AList.update ''positions'' v data) k = map_of data k"
    and "dict_get (AList.update ''positions'' v data) k = dict_get data k"
    and "dict_get_default (AList.update ''positions'' v data) k dflt = dict_get_default data k dflt"
  using assms by (simp_all add: dict_get_def dict_get_default_def update_conv')

lemma steps_with_annotated_payload:
  "finish_metadata (AList.update ''positions'' v data) nfs md = finish_metadata data nfs md"
  "set_css_and_title (AList.update ''positions'' v data) d = set_css_and_title data d"
  "new_filter_scopes_of env (AList.update ''positions'' v data) old_to_new ids
     = new_filter_scopes_of env data old_to_new ids"
  "default_filters_of env (AList.update ''positions'' v data) ids
     = default_filters_of env data ids"
  by (simp_all add: finish_metadata_def set_css_and_title_def new_filter_scopes_of_def
        default_filters_of_def payload_with_positions)

lemma second_run_annotated_payload:
  assumes "dict_get data ''positions'' = Some p"
      and "set_dash_metadata_run env d data old_to_new commit = Inr (d1, data1, md1)"
      and "params_dict env d1 = Inr md1"
  shows "set_dash_metadata_run env d1 data1 old_to_new commit = Inr (d1, data1, md1)"
proof -
  from run_with_positions [OF assms(1,2)] obtain ps ids cs ps' where
    f: "slice_ids_of (map snd ps) = Inr ids"
       "annotate_positions (uuid_map_of cs) ps = Inr ps'"
       "data1 = AList.update ''positions'' (JObj ps') data"
    by blast
  have same: "set_dash_metadata_run env d1 data old_to_new commit = Inr (d1, data1, md1)"
    by (rule second_run_same_payload [OF assms])
  from run_with_positions [OF assms(1) same] obtain ps0 ids0 cs0 ps0' nfs0 app0 where
    g: "p = JObj ps0" "slice_ids_of (map snd ps0) = Inr ids0" "query_slices env ids0 = Inr cs0"
       "annotate_positions (uuid_map_of cs0) ps0 = Inr ps0'"
       "new_filter_scopes_of env data old_to_new ids0 = Inr nfs0"
       "default_filters_of env data ids0 = Inr app0"
       "data1 = AList.update ''positions'' (JObj ps0') data"
    by blast
  have pos: "dict_get data ''positions'' = Some (JObj ps0)"
    using assms(1) g(1) by simp
  have pos1: "dict_get data1 ''positions'' = Some (JObj ps0')"
    by (simp add: g(7) dict_get_def update_conv')
  have ids1: "slice_ids_of (map snd ps0') = Inr ids0"
    using slice_ids_of_annotated [OF g(4)] g(2) by simp
  have ann1: "annotate_positions (uuid_map_of cs0) ps0' = Inr ps0'"
    by (rule annotate_positions_again [OF g(4)])
  have nfs1: "new_filter_scopes_of env data1 old_to_new ids0 = Inr nfs0"
    by (simp add: g(7) steps_with_annotated_payload g(5))
  have upd: "AList.update ''positions'' (JObj ps0') data1 = data1"
    by (simp add: g(7))
  have "set_dash_metadata_run env d1 data1 old_to_new commit
          = set_dash_metadata_run env d1 data old_to_new commit"
    unfolding run_with_positions_steps [OF assms(3) pos1 ids1 g(3) ann1 nfs1, of commit]
      run_with_positions_steps [OF assms(3) pos g(2,3,4,5), of commit] upd
    by (simp add: g(7) steps_with_annotated_payload split: sum.splits option.splits)
  with same show ?thesis by simp
qed

text \<open>
  C4. Let the update carry positions, let the call return the dashboard \<open>d1\<close>, and let
  the metadata read back from \<open>d1\<close> be the dictionary that was serialised into it. Then
  the call on \<open>d1\<close> with the same update and the same id map returns \<open>d1\<close> again: the
  same metadata text, the same position text (the sorted compact serialisation of the
  annotated positions), the same charts. The same holds when the second call gets the
  payload as the first call left it, with the uuids written into its positions.
\<close>

theorem second_application_changes_nothing:
  assumes "dict_get data ''positions'' = Some p"
      and "set_dash_metadata_run env d data old_to_new commit = Inr (d1, data1, md1)"
      and "params_dict env d1 = Inr md1"
  shows "set_dash_metadata env d data old_to_new commit = Inr d1
       \<and> json_metadata d1 = json_dumps (JObj md1)
       \<and> (\<exists>ps'. map_of data1 ''positions'' = Some (JObj ps')
               \<and> position_json d1 = json_dumps_compact_sorted (JObj ps'))
       \<and> set_dash_metadata_run env d1 data old_to_new commit = Inr (d1, data1, md1)
       \<and> set_dash_metadata env d1 data old_to_new commit = Inr d1
       \<and> set_dash_metadata_run env d1 data1 old_to_new commit = Inr (d1, data1, md1)
       \<and> set_dash_metadata env d1 data1 old_to_new commit = Inr d1"
proof -
  from run_with_positions [OF assms(1,2)] obtain ps' where
    f: "data1 = AList.update ''positions'' (JObj ps') data"
       "d1 = (set_css_and_title data
                (d\<lparr>slices := slices d1,
                   position_json := json_dumps_compact_sorted (JObj ps')\<rparr>))
               \<lparr>json_metadata := json_dumps (JObj md1)\<rparr>"
    by (auto simp: set_css_and_title_frame)
  have jm: "json_metadata d1 = json_dumps (JObj md1)"
    by (subst f(2)) simp
  have pj: "position_json d1 = json_dumps_compact_sorted (JObj ps')"
    by (subst f(2)) (simp add: set_css_and_title_frame)
  have pm: "map_of data1 ''positions'' = Some (JObj ps')"
    by (simp add: f(1) update_conv')
  note a = second_run_same_payload [OF assms]
  note b = second_run_annotated_payload [OF assms]
  from assms(2) a b jm pj pm show ?thesis
    by (auto simp: set_dash_metadata_def)
qed

text \<open>
  The theorem at an update with two chart references, default filters, filter scopes,
  a colour namespace and a title, applied to a dashboard with empty metadata.
\<close>

theorem second_application_changes_nothing_witness:
  "dict_get ex_data_full ''positions'' = Some (JObj ex_positions_mixed)
   \<and> (\<exists>d1 data1.
         set_dash_metadata_run ex_env_reading ex_dashboard ex_data_full None False
           = Inr (d1, data1, ex_md_reconciled)
       \<and> params_dict ex_env_reading d1 = Inr ex_md_reconciled
       \<and> set_dash_metadata ex_env_reading d1 ex_data_full None False = Inr d1
       \<and> set_dash_metadata ex_env_reading d1 data1 None False = Inr d1)"
proof -
  have p: "dict_get ex_data_full ''positions'' = Some (JObj ex_positions_mixed)"
    by code_simp
  have r: "case set_dash_metadata_run ex_env_reading ex_dashboard ex_data_full None False of
             Inl e \<Rightarrow> False
           | Inr r \<Rightarrow> snd (snd r) = ex_md_reconciled
                      \<and> params_dict ex_env_reading (fst r) = Inr ex_md_reconciled"
    by code_simp
  then obtain d1 data1 where
    run: "set_dash_metadata_run ex_env_reading ex_dashboard ex_data_full None False
            = Inr (d1, data1, ex_md_reconciled)"
    and rd: "params_dict ex_env_reading d1 = Inr ex_md_reconciled"
    by (auto split: sum.splits)
  from second_application_changes_nothing [OF p run rd] run rd p
  show ?thesis by blast
qed

end
